theory Spec2Isabelle
  imports Main "HOL-Library.Char_ord" "HOL-Library.Sublist"
begin

section \<open>Interactive command-line prompts\<close>

text \<open>
  The repository holds four prompt functions, each in a program of its own:
  \<^verbatim>\<open>StringPrompt\<close> and \<^verbatim>\<open>YesNoPrompt\<close> (read a line of standard input through a
  \<^verbatim>\<open>bufio.Reader\<close>), \<^verbatim>\<open>PasswordPrompt\<close> (reads through \<^verbatim>\<open>term.ReadPassword\<close>) and
  \<^verbatim>\<open>Checkboxes\<close> (hands a \<^verbatim>\<open>survey.MultiSelect\<close> to \<^verbatim>\<open>survey.AskOne\<close>).
  Each function is embedded as a function on an explicit process environment:
  what is left to read on standard input, whether standard input is a terminal,
  and what has been written to standard output and to standard error.
  A Go \<^verbatim>\<open>string\<close> is a sequence of bytes, here a \<^typ>\<open>string\<close>.
\<close>

subsection \<open>The process environment\<close>

abbreviation LF :: char where "LF \<equiv> CHR 0x0A"
abbreviation CR :: char where "CR \<equiv> CHR 0x0D"
abbreviation BS :: char where "BS \<equiv> CHR 0x08"

text \<open>
  The error values of the libraries the programs call: \<^verbatim>\<open>io.EOF\<close>, the errno of a
  terminal ioctl on a descriptor that is no terminal, and an error made by
  \<^verbatim>\<open>errors.New\<close>. The prompt functions of the repository return no error: their
  result types are \<^verbatim>\<open>string\<close>, \<^verbatim>\<open>bool\<close> and \<^verbatim>\<open>[]string\<close>.
\<close>

datatype error = EOF | ENOTTY | ErrorString string

record world =
  stdin :: string
  tty :: bool
  stdout :: string
  stderr :: string

text \<open>\<^verbatim>\<open>fmt.Fprint(os.Stderr, s)\<close> and \<^verbatim>\<open>fmt.Println()\<close> (no operand: one newline on standard output).\<close>

definition Fprint_Stderr :: "string \<Rightarrow> world \<Rightarrow> world" where
  "Fprint_Stderr s w = w\<lparr>stderr := stderr w @ s\<rparr>"

definition Println :: "world \<Rightarrow> world" where
  "Println w = w\<lparr>stdout := stdout w @ [LF]\<rparr>"

subsection \<open>Library functions\<close>

text \<open>
  \<^verbatim>\<open>(*bufio.Reader).ReadString(delim)\<close>: the data up to and including the first
  delimiter; when the input ends before a delimiter, the data read so far and
  \<^verbatim>\<open>io.EOF\<close>. The reader is created by the prompt for standard input, so
  inside one call of a prompt its unread input is the \<^const>\<open>stdin\<close> of the
  environment. The reader reads ahead, and what it holds in its buffer is
  lost with it when the prompt returns: the \<^const>\<open>stdin\<close> of the environment a
  prompt returns is the input the prompt has not returned. On a terminal,
  which hands over one line for each read, that is what is left on the
  descriptor; on a pipe or a file less is left, or nothing. What a prompt
  returns and what it writes do not depend on it.
\<close>

fun ReadString :: "char \<Rightarrow> string \<Rightarrow> string \<times> error option \<times> string" where
  "ReadString delim [] = ([], Some EOF, [])"
| "ReadString delim (c # cs) =
     (if c = delim then ([c], None, cs)
      else (case ReadString delim cs of (s, err, rest) \<Rightarrow> (c # s, err, rest)))"

definition Reader_ReadString :: "char \<Rightarrow> world \<Rightarrow> (string \<times> error option) \<times> world" where
  "Reader_ReadString delim w =
     (case ReadString delim (stdin w) of (s, err, rest) \<Rightarrow> ((s, err), w\<lparr>stdin := rest\<rparr>))"

text \<open>
  \<^verbatim>\<open>strings.TrimSpace\<close> removes the leading and the trailing white space of a
  string, white space being the code points of Unicode's White_Space
  property (\<^verbatim>\<open>unicode.IsSpace\<close>): the six of Go's \<^verbatim>\<open>asciiSpace\<close> table (tab, line
  feed, vertical tab, form feed, carriage return, space) and U+0085, U+00A0,
  U+1680, U+2000 to U+200A, U+2028, U+2029, U+202F, U+205F and U+3000. On the
  bytes of a string these are the UTF-8 encodings listed in \<open>spaceRunes\<close>.
  Go decodes a rune at the front of the string, and a rune at its back, and
  drops it while it is white space; a byte that starts no well-formed
  encoding decodes to U+FFFD, which is no white space. The string has a white
  space rune at its front (at its back) exactly when one of the encodings is
  a prefix (a suffix) of it.
\<close>

definition asciiSpace :: "char \<Rightarrow> bool" where
  "asciiSpace c =
     (c = CHR 0x09 \<or> c = LF \<or> c = CHR 0x0B \<or> c = CHR 0x0C \<or> c = CR \<or> c = CHR 0x20)"

definition spaceRunes :: "string list" where
  "spaceRunes =
    [[CHR 0x09], [LF], [CHR 0x0B], [CHR 0x0C], [CR], [CHR 0x20],
     [CHR 0xC2, CHR 0x85], [CHR 0xC2, CHR 0xA0],
     [CHR 0xE1, CHR 0x9A, CHR 0x80],
     [CHR 0xE2, CHR 0x80, CHR 0x80], [CHR 0xE2, CHR 0x80, CHR 0x81],
     [CHR 0xE2, CHR 0x80, CHR 0x82], [CHR 0xE2, CHR 0x80, CHR 0x83],
     [CHR 0xE2, CHR 0x80, CHR 0x84], [CHR 0xE2, CHR 0x80, CHR 0x85],
     [CHR 0xE2, CHR 0x80, CHR 0x86], [CHR 0xE2, CHR 0x80, CHR 0x87],
     [CHR 0xE2, CHR 0x80, CHR 0x88], [CHR 0xE2, CHR 0x80, CHR 0x89],
     [CHR 0xE2, CHR 0x80, CHR 0x8A],
     [CHR 0xE2, CHR 0x80, CHR 0xA8], [CHR 0xE2, CHR 0x80, CHR 0xA9],
     [CHR 0xE2, CHR 0x80, CHR 0xAF],
     [CHR 0xE2, CHR 0x81, CHR 0x9F],
     [CHR 0xE3, CHR 0x80, CHR 0x80]]"

text \<open>The continuation bytes of UTF-8: every byte of an encoding but its first.\<close>

definition cont :: "char \<Rightarrow> bool" where
  "cont b = (CHR 0x80 \<le> b \<and> b < CHR 0xC0)"

lemma spaceRunes_nonempty: "r \<in> set spaceRunes \<Longrightarrow> r \<noteq> []"
  by (auto simp: spaceRunes_def)

function TrimLeftSpace :: "string \<Rightarrow> string" where
  "TrimLeftSpace s =
     (case find (\<lambda>r. prefix r s) spaceRunes of
        None \<Rightarrow> s
      | Some r \<Rightarrow> TrimLeftSpace (drop (length r) s))"
  by pat_completeness auto
termination
proof (relation "measure length")
  show "wf (measure length)" by simp
next
  fix s r :: string
  assume "find (\<lambda>r. prefix r s) spaceRunes = Some r"
  then have "r \<in> set spaceRunes" and "prefix r s"
    by (auto simp: find_Some_iff)
  then have "r \<noteq> []" and "length r \<le> length s"
    by (auto simp: spaceRunes_nonempty prefix_length_le)
  then show "(drop (length r) s, s) \<in> measure length"
    by (cases r) auto
qed

function TrimRightSpace :: "string \<Rightarrow> string" where
  "TrimRightSpace s =
     (case find (\<lambda>r. suffix r s) spaceRunes of
        None \<Rightarrow> s
      | Some r \<Rightarrow> TrimRightSpace (take (length s - length r) s))"
  by pat_completeness auto
termination
proof (relation "measure length")
  show "wf (measure length)" by simp
next
  fix s r :: string
  assume "find (\<lambda>r. suffix r s) spaceRunes = Some r"
  then have "r \<in> set spaceRunes" and "suffix r s"
    by (auto simp: find_Some_iff)
  then have "r \<noteq> []" and "length r \<le> length s"
    by (auto simp: spaceRunes_nonempty suffix_length_le)
  then show "(take (length s - length r) s, s) \<in> measure length"
    by (cases r) auto
qed

declare TrimLeftSpace.simps [simp del] TrimRightSpace.simps [simp del]

definition TrimSpace :: "string \<Rightarrow> string" where
  "TrimSpace s = TrimRightSpace (TrimLeftSpace s)"

text \<open>A string that has a white space rune at its front, or at its back.\<close>

definition startsWithSpace :: "string \<Rightarrow> bool" where
  "startsWithSpace s = (\<exists>r\<in>set spaceRunes. prefix r s)"

definition endsWithSpace :: "string \<Rightarrow> bool" where
  "endsWithSpace s = (\<exists>r\<in>set spaceRunes. suffix r s)"

text \<open>
  \<^verbatim>\<open>strings.ToLower\<close> on bytes: the letters \<^verbatim>\<open>A\<close> to \<^verbatim>\<open>Z\<close> become \<^verbatim>\<open>a\<close> to \<^verbatim>\<open>z\<close>,
  every other byte is kept. Go maps a rune outside ASCII by the Unicode case
  tables, which send no such rune to one of the letters y, e, s, n and o; the
  one caller, \<^verbatim>\<open>YesNoPrompt\<close>, only compares the result with \<^verbatim>\<open>"y"\<close>, \<^verbatim>\<open>"yes"\<close>, \<^verbatim>\<open>"n"\<close>
  and \<^verbatim>\<open>"no"\<close>, and a string with a byte from \<^verbatim>\<open>0x80\<close> on is none of these
  under either mapping.
\<close>

definition toLower :: "char \<Rightarrow> char" where
  "toLower c =
     (if CHR ''A'' \<le> c \<and> c \<le> CHR ''Z'' then char_of (of_char c + (32::nat)) else c)"

definition ToLower :: "string \<Rightarrow> string" where
  "ToLower s = map toLower s"

text \<open>
  \<^verbatim>\<open>term.ReadPassword(fd)\<close> on Unix. On a descriptor that is no terminal the
  ioctl that reads the terminal state fails and nothing is read. On a terminal
  the line is read byte by byte with echo off: a backspace drops the last byte
  kept, a carriage return is skipped, a line feed ends the line and is not
  part of the result. The bytes come from \<^verbatim>\<open>unix.Read\<close> on the descriptor, which
  at the end of the input gives no byte and no error, and the read is tried
  again: when the input ends before a line feed the call does not return,
  which is \<^const>\<open>None\<close>. The echo flag that the call clears and restores is not part
  of the environment.

  \<^verbatim>\<open>term.IsTerminal(fd)\<close>, the test of the program in \<^verbatim>\<open>src/interactive\<close>, reads
  the same terminal state.
\<close>

fun readPasswordLine ::
  "string \<Rightarrow> string \<Rightarrow> ((string \<times> error option) \<times> string) option" where
  "readPasswordLine ret [] = None"
| "readPasswordLine ret (c # cs) =
     (if c = BS then readPasswordLine (butlast ret) cs
      else if c = LF then Some ((ret, None), cs)
      else if c = CR then readPasswordLine ret cs
      else readPasswordLine (ret @ [c]) cs)"

definition IsTerminal :: "world \<Rightarrow> bool" where
  "IsTerminal w = tty w"

definition ReadPassword :: "world \<Rightarrow> ((string \<times> error option) \<times> world) option" where
  "ReadPassword w =
     (if IsTerminal w
      then (case readPasswordLine [] (stdin w) of
              None \<Rightarrow> None
            | Some (r, rest) \<Rightarrow> Some (r, w\<lparr>stdin := rest\<rparr>))
      else Some (([], Some ENOTTY), w))"

subsection \<open>StringPrompt\<close>

text \<open>
  \<^verbatim>\<open>
  func StringPrompt(label string) string {
      var s string
      r := bufio.NewReader(os.Stdin)
      for {
          fmt.Fprint(os.Stderr, label+" ")
          s, _ = r.ReadString('\n')
          if s != "" {
              break
          }
      }
      return strings.TrimSpace(s)
  }
  \<close>
  The loop has no bound, so it is a partial function: \<^const>\<open>None\<close> is a loop that
  never leaves.
\<close>

partial_function (option) StringPrompt_loop :: "string \<Rightarrow> world \<Rightarrow> (string \<times> world) option" where
  "StringPrompt_loop label w =
     (let w1 = Fprint_Stderr (label @ '' '') w in
      case Reader_ReadString LF w1 of ((s, _), w2) \<Rightarrow>
        if s \<noteq> [] then Some (s, w2) else StringPrompt_loop label w2)"

definition StringPrompt :: "string \<Rightarrow> world \<Rightarrow> (string \<times> world) option" where
  "StringPrompt label w =
     (case StringPrompt_loop label w of
        None \<Rightarrow> None
      | Some (s, w') \<Rightarrow> Some (TrimSpace s, w'))"

subsection \<open>PasswordPrompt\<close>

text \<open>
  \<^verbatim>\<open>
  func PasswordPrompt(label string) string {
      var s string
      for {
          fmt.Fprint(os.Stderr, label+" ")
          b, _ := term.ReadPassword(int(syscall.Stdin))
          s = string(b)
          if s != "" {
              break
          }
      }
      fmt.Println()
      return s
  }
  \<close>
  The loop does not leave when a hidden read does not return.
\<close>

partial_function (option) PasswordPrompt_loop :: "string \<Rightarrow> world \<Rightarrow> (string \<times> world) option" where
  "PasswordPrompt_loop label w =
     (let w1 = Fprint_Stderr (label @ '' '') w in
      case ReadPassword w1 of
        None \<Rightarrow> None
      | Some ((b, _), w2) \<Rightarrow>
          let s = b in
          if s \<noteq> [] then Some (s, w2) else PasswordPrompt_loop label w2)"

definition PasswordPrompt :: "string \<Rightarrow> world \<Rightarrow> (string \<times> world) option" where
  "PasswordPrompt label w =
     (case PasswordPrompt_loop label w of
        None \<Rightarrow> None
      | Some (s, w') \<Rightarrow> Some (s, Println w'))"

subsection \<open>YesNoPrompt\<close>

text \<open>
  \<^verbatim>\<open>
  func YesNoPrompt(label string, def bool) bool {
      choices := "Y/n"
      if !def {
          choices = "y/N"
      }
      r := bufio.NewReader(os.Stdin)
      var s string
      for {
          fmt.Fprintf(os.Stderr, "%s (%s) ", label, choices)
          s, _ = r.ReadString('\n')
          s = strings.TrimSpace(s)
          if s == "" {
              return def
          }
          s = strings.ToLower(s)
          if s == "y" || s == "yes" {
              return true
          }
          if s == "n" || s == "no" {
              return false
          }
      }
  }
  \<close>
  The loop goes round again only after a line with something besides white
  space, so every round but the last takes at least one byte of the input: on
  an input that ends the function is total.
\<close>

lemma ReadString_split: "ReadString d xs = (s, err, rest) \<Longrightarrow> xs = s @ rest"
  by (induction xs arbitrary: s err rest) (auto split: if_splits prod.splits)

lemma TrimSpace_Nil: "TrimSpace [] = []"
proof -
  have "TrimLeftSpace [] = []"
    by (subst TrimLeftSpace.simps) (simp add: spaceRunes_def)
  moreover have "TrimRightSpace [] = []"
    by (subst TrimRightSpace.simps) (simp add: spaceRunes_def)
  ultimately show ?thesis by (simp add: TrimSpace_def)
qed

function YesNoPrompt_loop :: "string \<Rightarrow> bool \<Rightarrow> string \<Rightarrow> world \<Rightarrow> bool \<times> world" where
  "YesNoPrompt_loop label def choices w =
     (let w1 = Fprint_Stderr (label @ '' ('' @ choices @ '') '') w in
      case Reader_ReadString LF w1 of ((s, _), w2) \<Rightarrow>
        let s = TrimSpace s in
        if s = [] then (def, w2)
        else
          let s = ToLower s in
          if s = ''y'' \<or> s = ''yes'' then (True, w2)
          else if s = ''n'' \<or> s = ''no'' then (False, w2)
          else YesNoPrompt_loop label def choices w2)"
  by pat_completeness auto
termination
  apply (relation "measure (\<lambda>(label, def, choices, w). length (stdin w))")
   apply simp
  apply (auto simp: Fprint_Stderr_def Reader_ReadString_def TrimSpace_Nil
      split: prod.splits dest!: ReadString_split)
  done

declare YesNoPrompt_loop.simps [simp del]

definition YesNoPrompt :: "string \<Rightarrow> bool \<Rightarrow> world \<Rightarrow> bool \<times> world" where
  "YesNoPrompt label def w =
     (let choices = (if \<not> def then ''y/N'' else ''Y/n'') in
      YesNoPrompt_loop label def choices w)"

text \<open>What one round of \<^verbatim>\<open>YesNoPrompt\<close> writes to standard error.\<close>

abbreviation YesNo_hint :: "string \<Rightarrow> bool \<Rightarrow> string" where
  "YesNo_hint label def \<equiv> label @ '' ('' @ (if def then ''Y/n'' else ''y/N'') @ '') ''"

subsection \<open>Checkboxes\<close>

text \<open>
  \<^verbatim>\<open>
  func Checkboxes(label string, opts []string) []string {
      res := []string{}
      prompt := &survey.MultiSelect{
          Message: label,
          Options: opts,
      }
      survey.AskOne(prompt, &res)
      return res
  }
  \<close>
  The selection list of the \<^verbatim>\<open>survey\<close> package is a collaborator outside the
  repository, so \<^verbatim>\<open>survey.AskOne\<close> is a parameter of the model: a function from
  the prompt and the environment to an outcome and the environment it leaves.
  It either fails with an error and leaves the response untouched, or it
  answers with the chosen options, which it appends to the slice behind the
  response pointer.

  A Go slice may be \<^verbatim>\<open>nil\<close>: a slice value is a \<^typ>\<open>'a list option\<close> with \<^const>\<open>None\<close> for
  \<^verbatim>\<open>nil\<close>, and \<^verbatim>\<open>[]string{}\<close> is \<^term>\<open>Some []\<close>.
\<close>

record MultiSelect =
  Message :: string
  Options :: "string list"

datatype outcome = Failed error | Answered "string list"

type_synonym collaborator = "MultiSelect \<Rightarrow> world \<Rightarrow> outcome \<times> world"

fun append_slice :: "'a list option \<Rightarrow> 'a list \<Rightarrow> 'a list option" where
  "append_slice None [] = None"
| "append_slice None (x # xs) = Some (x # xs)"
| "append_slice (Some ys) xs = Some (ys @ xs)"

fun WriteAnswer :: "string list option \<Rightarrow> outcome \<Rightarrow> string list option" where
  "WriteAnswer res (Failed e) = res"
| "WriteAnswer res (Answered chosen) = append_slice res chosen"

definition Checkboxes ::
  "collaborator \<Rightarrow> string \<Rightarrow> string list \<Rightarrow> world \<Rightarrow> string list option \<times> world" where
  "Checkboxes AskOne label opts w =
     (let res = Some [];
          prompt = \<lparr>Message = label, Options = opts\<rparr> in
      case AskOne prompt w of (out, w') \<Rightarrow> (WriteAnswer res out, w'))"

text \<open>
  Test doubles for the collaborator: one that selects every option, one that
  selects the first option, one that selects none, two that fail (standard
  input is no terminal; the user interrupts), and one that reads a line of
  standard input and selects the options that line names.
\<close>

definition select_all :: collaborator where
  "select_all prompt w = (Answered (Options prompt), w)"

definition select_first :: collaborator where
  "select_first prompt w = (Answered (take 1 (Options prompt)), w)"

definition select_none :: collaborator where
  "select_none prompt w = (Answered [], w)"

definition no_terminal :: collaborator where
  "no_terminal prompt w = (Failed ENOTTY, w)"

definition interrupted :: collaborator where
  "interrupted prompt w = (Failed (ErrorString ''interrupt''), w)"

definition select_typed :: collaborator where
  "select_typed prompt w =
     (case Reader_ReadString LF w of ((s, _), w') \<Rightarrow>
        (Answered (filter (\<lambda>opt. opt = TrimSpace s) (Options prompt)), w'))"

section \<open>Facts about the library functions\<close>

text \<open>A line that ends with the delimiter is read whole, delimiter included.\<close>

lemma ReadString_line:
  "d \<notin> set line \<Longrightarrow> ReadString d (line @ d # rest) = (line @ [d], None, rest)"
  by (induction line) auto

lemma ReadString_nonempty: "xs \<noteq> [] \<Longrightarrow> fst (ReadString d xs) \<noteq> []"
  by (cases xs) (auto split: prod.splits)

text \<open>
  No encoding in \<^const>\<open>spaceRunes\<close> is a prefix or a suffix of another, so at most
  one of them is found at the front (at the back) of a string. Every byte of
  an encoding but the first is a continuation byte, and the first is none.
\<close>

lemma spaceRunes_prefix_free_all:
  "list_all (\<lambda>r. list_all (\<lambda>r'. prefix r r' \<longrightarrow> r = r') spaceRunes) spaceRunes"
  by code_simp

lemma spaceRunes_prefix_free:
  "r \<in> set spaceRunes \<Longrightarrow> r' \<in> set spaceRunes \<Longrightarrow> prefix r r' \<Longrightarrow> r = r'"
  using spaceRunes_prefix_free_all by (simp add: list_all_iff)

lemma spaceRunes_suffix_free_all:
  "list_all (\<lambda>r. list_all (\<lambda>r'. suffix r r' \<longrightarrow> r = r') spaceRunes) spaceRunes"
  by code_simp

lemma spaceRunes_suffix_free:
  "r \<in> set spaceRunes \<Longrightarrow> r' \<in> set spaceRunes \<Longrightarrow> suffix r r' \<Longrightarrow> r = r'"
  using spaceRunes_suffix_free_all by (simp add: list_all_iff)

lemma spaceRunes_shape_all:
  "list_all (\<lambda>r. r \<noteq> [] \<and> \<not> cont (hd r) \<and> list_all cont (tl r)) spaceRunes"
  by code_simp

lemma spaceRunes_shape:
  assumes "r \<in> set spaceRunes"
  shows "r \<noteq> []" and "\<not> cont (hd r)" and "\<forall>b\<in>set (tl r). cont b"
  using assms spaceRunes_shape_all by (auto simp: list_all_iff)

lemma asciiSpace_rune: "asciiSpace c \<Longrightarrow> [c] \<in> set spaceRunes"
  by (auto simp: spaceRunes_def asciiSpace_def)

lemma find_rune_prefix:
  assumes "r \<in> set spaceRunes"
  shows "find (\<lambda>t. prefix t (r @ s)) spaceRunes = Some r"
proof (cases "find (\<lambda>t. prefix t (r @ s)) spaceRunes")
  case None
  with assms show ?thesis by (auto simp: find_None_iff)
next
  case (Some t)
  then have t: "t \<in> set spaceRunes" "prefix t (r @ s)"
    by (auto simp: find_Some_iff)
  then have "prefix t r \<or> prefix r t"
    by (meson prefix_same_cases prefixI)
  with assms t(1) have "t = r"
    by (auto dest: spaceRunes_prefix_free)
  with Some show ?thesis by simp
qed

lemma find_rune_suffix:
  assumes "r \<in> set spaceRunes"
  shows "find (\<lambda>t. suffix t (s @ r)) spaceRunes = Some r"
proof (cases "find (\<lambda>t. suffix t (s @ r)) spaceRunes")
  case None
  with assms have "\<not> suffix r (s @ r)" by (simp add: find_None_iff)
  then show ?thesis by (simp add: suffix_def)
next
  case (Some t)
  then have t: "t \<in> set spaceRunes" "suffix t (s @ r)"
    by (auto simp: find_Some_iff)
  then have "suffix t r \<or> suffix r t"
    by (meson suffix_same_cases suffixI)
  with assms t(1) have "t = r"
    by (auto dest: spaceRunes_suffix_free)
  with Some show ?thesis by simp
qed

lemma TrimLeftSpace_rune: "r \<in> set spaceRunes \<Longrightarrow> TrimLeftSpace (r @ s) = TrimLeftSpace s"
  by (subst TrimLeftSpace.simps) (simp add: find_rune_prefix)

lemma TrimRightSpace_rune: "r \<in> set spaceRunes \<Longrightarrow> TrimRightSpace (s @ r) = TrimRightSpace s"
  by (subst TrimRightSpace.simps) (simp add: find_rune_suffix)

lemma TrimLeftSpace_stop: "\<forall>r\<in>set spaceRunes. \<not> prefix r s \<Longrightarrow> TrimLeftSpace s = s"
  by (subst TrimLeftSpace.simps) (simp add: find_None_iff [THEN iffD2])

lemma TrimRightSpace_stop: "\<forall>r\<in>set spaceRunes. \<not> suffix r s \<Longrightarrow> TrimRightSpace s = s"
  by (subst TrimRightSpace.simps) (simp add: find_None_iff [THEN iffD2])

lemma TrimLeftSpace_Nil: "TrimLeftSpace [] = []"
  by (rule TrimLeftSpace_stop) (auto dest: spaceRunes_shape(1))

lemma TrimRightSpace_Nil: "TrimRightSpace [] = []"
  by (rule TrimRightSpace_stop) (auto dest: spaceRunes_shape(1))

lemma TrimLeftSpace_concat:
  "set ws \<subseteq> set spaceRunes \<Longrightarrow> TrimLeftSpace (concat ws @ s) = TrimLeftSpace s"
  by (induction ws) (simp_all add: TrimLeftSpace_rune)

lemma TrimRightSpace_concat:
  "set ws \<subseteq> set spaceRunes \<Longrightarrow> TrimRightSpace (s @ concat ws) = TrimRightSpace s"
proof (induction ws rule: rev_induct)
  case Nil
  then show ?case by simp
next
  case (snoc r ws)
  then have "TrimRightSpace ((s @ concat ws) @ r) = TrimRightSpace (s @ concat ws)"
    by (intro TrimRightSpace_rune) simp
  with snoc show ?case by simp
qed

text \<open>
  Trimming on the left does not look past the first byte it keeps: what is
  appended to a string changes the result only when nothing of the string is
  kept. (The appended text must not start with a continuation byte, which
  could complete an encoding that the string ends with.)
\<close>

lemma TrimLeftSpace_append:
  assumes "t = [] \<or> \<not> cont (hd t)"
  shows "TrimLeftSpace (s @ t) =
    (if TrimLeftSpace s = [] then TrimLeftSpace t else TrimLeftSpace s @ t)"
  using assms
proof (induction s rule: TrimLeftSpace.induct)
  case (1 s)
  show ?case
  proof (cases "find (\<lambda>r. prefix r s) spaceRunes")
    case (Some r)
    then have r: "r \<in> set spaceRunes" and "prefix r s"
      by (auto simp: find_Some_iff)
    then obtain s' where s: "s = r @ s'"
      by (auto simp: prefix_def)
    then have d: "drop (length r) s = s'" by simp
    from "1.IH" [OF Some] "1.prems" d
    have "TrimLeftSpace (s' @ t) =
        (if TrimLeftSpace s' = [] then TrimLeftSpace t else TrimLeftSpace s' @ t)"
      by simp
    moreover have "TrimLeftSpace (s @ t) = TrimLeftSpace (s' @ t)"
      using TrimLeftSpace_rune [OF r, of "s' @ t"] s by simp
    moreover have "TrimLeftSpace s = TrimLeftSpace s'"
      using TrimLeftSpace_rune [OF r, of s'] s by simp
    ultimately show ?thesis by simp
  next
    case None
    then have n: "\<forall>r\<in>set spaceRunes. \<not> prefix r s"
      by (simp add: find_None_iff)
    then have e: "TrimLeftSpace s = s" by (rule TrimLeftSpace_stop)
    show ?thesis
    proof (cases "s = []")
      case True
      then show ?thesis by (simp add: TrimLeftSpace_Nil)
    next
      case False
      have "\<forall>r\<in>set spaceRunes. \<not> prefix r (s @ t)"
      proof (rule ballI, rule notI)
        fix r
        assume r: "r \<in> set spaceRunes" and p: "prefix r (s @ t)"
        from n r have np: "\<not> prefix r s" by simp
        with p obtain u where u: "r = s @ u" "prefix u t"
          by (auto simp: prefix_append)
        with np have "u \<noteq> []" by auto
        with u(2) have t: "t \<noteq> []" "hd u = hd t"
          by (auto simp: prefix_def)
        from False u(1) \<open>u \<noteq> []\<close> have "hd u \<in> set (tl r)"
          by (cases s) auto
        with spaceRunes_shape(3) [OF r] have "cont (hd u)" by simp
        with t "1.prems" show False by simp
      qed
      then have "TrimLeftSpace (s @ t) = s @ t" by (rule TrimLeftSpace_stop)
      with e False show ?thesis by simp
    qed
  qed
qed

text \<open>
  White space around a string does not change what \<^const>\<open>TrimSpace\<close> returns, and a
  string with no white space at either end is returned as it is.
\<close>

lemma TrimSpace_prepend:
  "set ws \<subseteq> set spaceRunes \<Longrightarrow> TrimSpace (concat ws @ s) = TrimSpace s"
  by (simp add: TrimSpace_def TrimLeftSpace_concat)

lemma TrimSpace_spaces: "set ws \<subseteq> set spaceRunes \<Longrightarrow> TrimSpace (concat ws) = []"
  using TrimSpace_prepend [of ws "[]"] by (simp add: TrimSpace_Nil)

lemma concat_runes_hd:
  assumes "set ws \<subseteq> set spaceRunes"
  shows "concat ws = [] \<or> \<not> cont (hd (concat ws))"
  using assms
proof (induction ws)
  case Nil
  then show ?case by simp
next
  case (Cons r ws)
  then have "r \<in> set spaceRunes" by simp
  then have "r \<noteq> []" "\<not> cont (hd r)" by (auto dest: spaceRunes_shape)
  then show ?case by simp
qed

lemma TrimSpace_append:
  assumes "set ws \<subseteq> set spaceRunes"
  shows "TrimSpace (s @ concat ws) = TrimSpace s"
proof (cases "TrimLeftSpace s = []")
  case True
  with assms show ?thesis
    using TrimLeftSpace_append [OF concat_runes_hd [OF assms], of s]
      TrimLeftSpace_concat [OF assms, of "[]"]
    by (simp add: TrimSpace_def TrimLeftSpace_Nil)
next
  case False
  with assms show ?thesis
    using TrimLeftSpace_append [OF concat_runes_hd [OF assms], of s]
    by (simp add: TrimSpace_def TrimRightSpace_concat)
qed

lemma TrimSpace_snoc:
  assumes "asciiSpace c"
  shows "TrimSpace (s @ [c]) = TrimSpace s"
  using TrimSpace_append [of "[[c]]" s] asciiSpace_rune [OF assms] by simp

lemma TrimSpace_bare:
  assumes "\<not> startsWithSpace core" and "\<not> endsWithSpace core"
  shows "TrimSpace core = core"
  using assms
  by (simp add: TrimSpace_def startsWithSpace_def endsWithSpace_def
      TrimLeftSpace_stop TrimRightSpace_stop)

lemma TrimSpace_around:
  assumes "set lead \<subseteq> set spaceRunes" and "set trail \<subseteq> set spaceRunes"
    and "\<not> startsWithSpace core" and "\<not> endsWithSpace core"
  shows "TrimSpace (concat lead @ core @ concat trail) = core"
proof -
  have "TrimSpace (concat lead @ core @ concat trail) = TrimSpace (core @ concat trail)"
    using assms(1) by (simp add: TrimSpace_prepend)
  also have "\<dots> = TrimSpace core"
    using assms(2) by (simp add: TrimSpace_append)
  also have "\<dots> = core"
    using assms(3,4) by (rule TrimSpace_bare)
  finally show ?thesis .
qed

section \<open>Facts about the prompt loops\<close>

text \<open>
  The loop of \<^verbatim>\<open>StringPrompt\<close> leaves in its first round when there is input, with
  whatever \<^const>\<open>ReadString\<close> returns; when the input has ended it never leaves.
\<close>

lemma StringPrompt_loop_reads:
  assumes "stdin w \<noteq> []" and "ReadString LF (stdin w) = (s, err, rest)"
  shows "StringPrompt_loop label w = Some (s, w\<lparr>stderr := stderr w @ label @ '' '', stdin := rest\<rparr>)"
proof -
  from assms have "s \<noteq> []" using ReadString_nonempty [of "stdin w" LF] by simp
  with assms(2) show ?thesis
    by (subst StringPrompt_loop.simps) (simp add: Fprint_Stderr_def Reader_ReadString_def)
qed

lemma StringPrompt_loop_Some_stdin:
  "StringPrompt_loop label w = Some y \<Longrightarrow> stdin w \<noteq> []"
proof (rule StringPrompt_loop.raw_induct [where P = "\<lambda>label w y. stdin w \<noteq> []"])
  fix f :: "string \<Rightarrow> world \<Rightarrow> (string \<times> world) option" and label w y
  assume IH: "\<And>l v z. f l v = Some z \<Longrightarrow> stdin v \<noteq> []"
    and step: "(let w1 = Fprint_Stderr (label @ '' '') w in
      case Reader_ReadString LF w1 of ((s, _), w2) \<Rightarrow>
        if s \<noteq> [] then Some (s, w2) else f label w2) = Some y"
  show "stdin w \<noteq> []"
  proof
    assume e: "stdin w = []"
    with step have "f label (w\<lparr>stderr := stderr w @ label @ '' '', stdin := []\<rparr>) = Some y"
      by (simp add: Fprint_Stderr_def Reader_ReadString_def)
    from IH [OF this] show False by simp
  qed
qed

lemma StringPrompt_loop_eof: "stdin w = [] \<Longrightarrow> StringPrompt_loop label w = None"
  using StringPrompt_loop_Some_stdin [of label w] by (cases "StringPrompt_loop label w") auto

text \<open>
  The loop of \<^verbatim>\<open>PasswordPrompt\<close> never leaves when standard input is no terminal;
  on a terminal it leaves with the first hidden read that is not empty, and
  it never leaves when the input ends before a line feed.
\<close>

lemma readPasswordLine_line:
  "\<forall>c\<in>set line. c \<noteq> BS \<and> c \<noteq> LF \<and> c \<noteq> CR \<Longrightarrow>
   readPasswordLine acc (line @ LF # rest) = Some ((acc @ line, None), rest)"
  by (induction line arbitrary: acc) auto

lemma readPasswordLine_no_line: "LF \<notin> set s \<Longrightarrow> readPasswordLine acc s = None"
  by (induction s arbitrary: acc) auto

lemma PasswordPrompt_loop_Some_tty:
  "PasswordPrompt_loop label w = Some y \<Longrightarrow> tty w"
proof (rule PasswordPrompt_loop.raw_induct [where P = "\<lambda>label w y. tty w"])
  fix f :: "string \<Rightarrow> world \<Rightarrow> (string \<times> world) option" and label w y
  assume IH: "\<And>l v z. f l v = Some z \<Longrightarrow> tty v"
    and step: "(let w1 = Fprint_Stderr (label @ '' '') w in
      case ReadPassword w1 of
        None \<Rightarrow> None
      | Some ((b, _), w2) \<Rightarrow>
          let s = b in
          if s \<noteq> [] then Some (s, w2) else f label w2) = Some y"
  show "tty w"
  proof (rule ccontr)
    assume e: "\<not> tty w"
    with step have "f label (w\<lparr>stderr := stderr w @ label @ '' ''\<rparr>) = Some y"
      by (simp add: Fprint_Stderr_def ReadPassword_def IsTerminal_def)
    from IH [OF this] e show False by simp
  qed
qed

lemma PasswordPrompt_loop_not_tty: "\<not> tty w \<Longrightarrow> PasswordPrompt_loop label w = None"
  using PasswordPrompt_loop_Some_tty [of label w]
  by (cases "PasswordPrompt_loop label w") auto

lemma PasswordPrompt_loop_hidden_read:
  assumes "tty w" and "readPasswordLine [] (stdin w) = Some ((b, err), rest)" and "b \<noteq> []"
  shows "PasswordPrompt_loop label w =
    Some (b, w\<lparr>stderr := stderr w @ label @ '' '', stdin := rest\<rparr>)"
  using assms
  by (subst PasswordPrompt_loop.simps) (simp add: Fprint_Stderr_def ReadPassword_def IsTerminal_def)

lemma PasswordPrompt_loop_line:
  assumes "tty w" and "stdin w = line @ LF # rest" and "line \<noteq> []"
    and "\<forall>c\<in>set line. c \<noteq> BS \<and> c \<noteq> LF \<and> c \<noteq> CR"
  shows "PasswordPrompt_loop label w =
    Some (line, w\<lparr>stderr := stderr w @ label @ '' '', stdin := rest\<rparr>)"
  using assms readPasswordLine_line [of line "[]" rest]
  by (subst PasswordPrompt_loop.simps) (simp add: Fprint_Stderr_def ReadPassword_def IsTerminal_def)

lemma PasswordPrompt_loop_empty_line:
  assumes "tty w" and "stdin w = LF # rest"
  shows "PasswordPrompt_loop label w =
    PasswordPrompt_loop label (w\<lparr>stderr := stderr w @ label @ '' '', stdin := rest\<rparr>)"
  using assms
  by (subst PasswordPrompt_loop.simps) (simp add: Fprint_Stderr_def ReadPassword_def IsTerminal_def)

text \<open>One round of the loop of \<^verbatim>\<open>YesNoPrompt\<close>, on a line and at the end of the input.\<close>

lemma YesNoPrompt_loop_line:
  assumes "LF \<notin> set line" and "stdin w = line @ LF # rest"
  shows "YesNoPrompt_loop label def ch w =
    (if TrimSpace line = [] then (def, w\<lparr>stderr := stderr w @ label @ '' ('' @ ch @ '') '', stdin := rest\<rparr>)
     else if ToLower (TrimSpace line) = ''y'' \<or> ToLower (TrimSpace line) = ''yes''
       then (True, w\<lparr>stderr := stderr w @ label @ '' ('' @ ch @ '') '', stdin := rest\<rparr>)
     else if ToLower (TrimSpace line) = ''n'' \<or> ToLower (TrimSpace line) = ''no''
       then (False, w\<lparr>stderr := stderr w @ label @ '' ('' @ ch @ '') '', stdin := rest\<rparr>)
     else YesNoPrompt_loop label def ch (w\<lparr>stderr := stderr w @ label @ '' ('' @ ch @ '') '', stdin := rest\<rparr>))"
proof -
  from assms have r: "ReadString LF (stdin w) = (line @ [LF], None, rest)"
    by (simp add: ReadString_line)
  have t: "TrimSpace (line @ [LF]) = TrimSpace line"
    by (rule TrimSpace_snoc) (simp add: asciiSpace_def)
  show ?thesis
    by (subst YesNoPrompt_loop.simps)
      (simp add: Fprint_Stderr_def Reader_ReadString_def r t Let_def)
qed

lemma YesNoPrompt_loop_eof:
  assumes "stdin w = []"
  shows "YesNoPrompt_loop label def ch w = (def, w\<lparr>stderr := stderr w @ label @ '' ('' @ ch @ '') ''\<rparr>)"
  using assms
  by (subst YesNoPrompt_loop.simps)
    (simp add: Fprint_Stderr_def Reader_ReadString_def TrimSpace_Nil)

text \<open>The same facts for the prompt functions themselves.\<close>

lemma StringPrompt_line:
  assumes "LF \<notin> set line" and "stdin w = line @ LF # rest"
  shows "StringPrompt label w =
    Some (TrimSpace line, w\<lparr>stderr := stderr w @ label @ '' '', stdin := rest\<rparr>)"
proof -
  from assms have "ReadString LF (stdin w) = (line @ [LF], None, rest)"
    by (simp add: ReadString_line)
  with assms(2) have "StringPrompt_loop label w =
      Some (line @ [LF], w\<lparr>stderr := stderr w @ label @ '' '', stdin := rest\<rparr>)"
    by (intro StringPrompt_loop_reads) simp_all
  moreover have "TrimSpace (line @ [LF]) = TrimSpace line"
    by (rule TrimSpace_snoc) (simp add: asciiSpace_def)
  ultimately show ?thesis by (simp add: StringPrompt_def)
qed

lemma StringPrompt_eof: "stdin w = [] \<Longrightarrow> StringPrompt label w = None"
  by (simp add: StringPrompt_def StringPrompt_loop_eof)

lemma PasswordPrompt_not_tty: "\<not> tty w \<Longrightarrow> PasswordPrompt label w = None"
  by (simp add: PasswordPrompt_def PasswordPrompt_loop_not_tty)

lemma PasswordPrompt_no_line:
  assumes "tty w" and "LF \<notin> set (stdin w)"
  shows "PasswordPrompt label w = None"
proof -
  from assms have "PasswordPrompt_loop label w = None"
    using readPasswordLine_no_line [of "stdin w" "[]"]
    by (subst PasswordPrompt_loop.simps)
      (simp add: Fprint_Stderr_def ReadPassword_def IsTerminal_def)
  then show ?thesis by (simp add: PasswordPrompt_def)
qed

lemma PasswordPrompt_hidden_read:
  assumes "tty w" and "readPasswordLine [] (stdin w) = Some ((b, err), rest)" and "b \<noteq> []"
  shows "PasswordPrompt label w =
    Some (b, w\<lparr>stderr := stderr w @ label @ '' '', stdin := rest,
      stdout := stdout w @ [LF]\<rparr>)"
  using PasswordPrompt_loop_hidden_read [OF assms, of label]
  by (simp add: PasswordPrompt_def Println_def)

lemma PasswordPrompt_line:
  assumes "tty w" and "stdin w = line @ LF # rest" and "line \<noteq> []"
    and "\<forall>c\<in>set line. c \<noteq> BS \<and> c \<noteq> LF \<and> c \<noteq> CR"
  shows "PasswordPrompt label w =
    Some (line, w\<lparr>stderr := stderr w @ label @ '' '', stdin := rest,
      stdout := stdout w @ [LF]\<rparr>)"
  using PasswordPrompt_loop_line [OF assms, of label]
  by (simp add: PasswordPrompt_def Println_def)

text \<open>
  \<^verbatim>\<open>PasswordPrompt\<close> goes round its loop again after an empty line: the hidden
  read returns the line without its line feed, so the test \<^verbatim>\<open>s != ""\<close> sees the
  empty string.
\<close>

lemma PasswordPrompt_retries_empty_line:
  assumes "tty w" and "stdin w = LF # rest"
  shows "PasswordPrompt label w =
    PasswordPrompt label (w\<lparr>stderr := stderr w @ label @ '' '', stdin := rest\<rparr>)"
  using PasswordPrompt_loop_empty_line [OF assms, of label]
  by (simp add: PasswordPrompt_def)

lemma YesNoPrompt_line:
  assumes "LF \<notin> set line" and "stdin w = line @ LF # rest"
  shows "YesNoPrompt label def w =
    (if TrimSpace line = []
     then (def, w\<lparr>stderr := stderr w @ YesNo_hint label def, stdin := rest\<rparr>)
     else if ToLower (TrimSpace line) = ''y'' \<or> ToLower (TrimSpace line) = ''yes''
     then (True, w\<lparr>stderr := stderr w @ YesNo_hint label def, stdin := rest\<rparr>)
     else if ToLower (TrimSpace line) = ''n'' \<or> ToLower (TrimSpace line) = ''no''
     then (False, w\<lparr>stderr := stderr w @ YesNo_hint label def, stdin := rest\<rparr>)
     else YesNoPrompt label def
       (w\<lparr>stderr := stderr w @ YesNo_hint label def, stdin := rest\<rparr>))"
  using YesNoPrompt_loop_line [OF assms, of label def "if \<not> def then ''y/N'' else ''Y/n''"]
  by (simp add: YesNoPrompt_def)

lemma YesNoPrompt_eof:
  "stdin w = [] \<Longrightarrow>
   YesNoPrompt label def w = (def, w\<lparr>stderr := stderr w @ YesNo_hint label def\<rparr>)"
  by (simp add: YesNoPrompt_def YesNoPrompt_loop_eof)

lemma Checkboxes_outcome:
  "Checkboxes AskOne label opts w =
    (case AskOne \<lparr>Message = label, Options = opts\<rparr> w of
       (Failed e, w') \<Rightarrow> (Some [], w')
     | (Answered chosen, w') \<Rightarrow> (Some chosen, w'))"
  by (simp add: Checkboxes_def split: prod.splits outcome.splits)

section \<open>What the prompts leave on standard output\<close>

text \<open>\<^verbatim>\<open>StringPrompt\<close> and \<^verbatim>\<open>YesNoPrompt\<close> write to standard error only.\<close>

lemma StringPrompt_stdout:
  assumes "StringPrompt label w = Some (s, w')"
  shows "stdout w' = stdout w"
proof (cases "stdin w = []")
  case True
  with assms show ?thesis by (simp add: StringPrompt_eof)
next
  case False
  obtain l err rest where r: "ReadString LF (stdin w) = (l, err, rest)"
    by (cases "ReadString LF (stdin w)") auto
  from StringPrompt_loop_reads [OF False r, of label] assms show ?thesis
    by (auto simp: StringPrompt_def)
qed

lemma YesNoPrompt_loop_stdout:
  "stdout (snd (YesNoPrompt_loop label def ch w)) = stdout w"
proof (induction label def ch w rule: YesNoPrompt_loop.induct)
  case (1 label def choices w)
  obtain s err rest where r: "ReadString LF (stdin w) = (s, err, rest)"
    by (cases "ReadString LF (stdin w)") auto
  let ?w2 = "w\<lparr>stderr := stderr w @ label @ '' ('' @ choices @ '') '', stdin := rest\<rparr>"
  have rr: "Reader_ReadString LF (Fprint_Stderr (label @ '' ('' @ choices @ '') '') w) =
      ((s, err), ?w2)"
    using r by (simp add: Reader_ReadString_def Fprint_Stderr_def)
  have ih: "TrimSpace s \<noteq> [] \<Longrightarrow>
      \<not> (ToLower (TrimSpace s) = ''y'' \<or> ToLower (TrimSpace s) = ''yes'') \<Longrightarrow>
      \<not> (ToLower (TrimSpace s) = ''n'' \<or> ToLower (TrimSpace s) = ''no'') \<Longrightarrow>
      stdout (snd (YesNoPrompt_loop label def choices ?w2)) = stdout ?w2"
    using "1.IH" [OF refl rr [symmetric] refl refl _ refl] by simp
  show ?case
    using ih by (subst YesNoPrompt_loop.simps, unfold Let_def, subst rr) simp
qed

lemma YesNoPrompt_stdout: "stdout (snd (YesNoPrompt label def w)) = stdout w"
  by (simp add: YesNoPrompt_def YesNoPrompt_loop_stdout)

section \<open>The claims\<close>

subsection \<open>C1: input that ends\<close>

text \<open>
  C1, as stated: on a standard input of zero or more empty lines and then the
  end of the stream, \<^verbatim>\<open>StringPrompt\<close> and \<^verbatim>\<open>YesNoPrompt\<close> fail with InputExhausted
  and neither return a value nor loop without end. The code has no such
  failure. On two empty lines \<^verbatim>\<open>StringPrompt\<close> returns the empty string and
  \<^verbatim>\<open>YesNoPrompt\<close> returns the default; on the empty stream \<^verbatim>\<open>StringPrompt\<close> does not
  return and \<^verbatim>\<open>YesNoPrompt\<close> returns the default.
\<close>

theorem exhausted_input_counterexample:
  "map_option fst
     (StringPrompt ''Name?'' \<lparr>stdin = [LF, LF], tty = False, stdout = [], stderr = []\<rparr>) =
     Some []
   \<and> StringPrompt ''Name?'' \<lparr>stdin = [], tty = False, stdout = [], stderr = []\<rparr> = None
   \<and> fst (YesNoPrompt ''Sure?'' True
       \<lparr>stdin = [LF, LF], tty = False, stdout = [], stderr = []\<rparr>) = True
   \<and> fst (YesNoPrompt ''Sure?'' False
       \<lparr>stdin = [], tty = False, stdout = [], stderr = []\<rparr>) = False"
  using StringPrompt_line [of "[]"
      "\<lparr>stdin = [LF, LF], tty = False, stdout = [], stderr = []\<rparr>" "[LF]" "''Name?''"]
    StringPrompt_eof [of "\<lparr>stdin = [], tty = False, stdout = [], stderr = []\<rparr>" "''Name?''"]
    YesNoPrompt_line [of "[]"
      "\<lparr>stdin = [LF, LF], tty = False, stdout = [], stderr = []\<rparr>" "[LF]" "''Sure?''" True]
    YesNoPrompt_eof [of "\<lparr>stdin = [], tty = False, stdout = [], stderr = []\<rparr>" "''Sure?''" False]
  by (simp add: TrimSpace_Nil)

text \<open>
  C1, amended: neither prompt has an InputExhausted failure. On a standard
  input of \<open>n\<close> empty lines and then the end of the stream, for every \<open>n\<close>,
  \<^verbatim>\<open>YesNoPrompt\<close> returns the default value after one round, with one hint
  written to standard error; on the stream that has ended already
  \<^verbatim>\<open>StringPrompt\<close> never returns.
\<close>

theorem exhausted_input_no_failure:
  "fst (YesNoPrompt label def (w\<lparr>stdin := replicate n LF\<rparr>)) = def
   \<and> stderr (snd (YesNoPrompt label def (w\<lparr>stdin := replicate n LF\<rparr>))) =
       stderr w @ YesNo_hint label def
   \<and> StringPrompt label (w\<lparr>stdin := []\<rparr>) = None"
proof -
  have "YesNoPrompt label def (w\<lparr>stdin := replicate n LF\<rparr>) =
     (def, w\<lparr>stderr := stderr w @ YesNo_hint label def, stdin := replicate (n - 1) LF\<rparr>)"
  proof (cases n)
    case 0
    then show ?thesis
      using YesNoPrompt_eof [of "w\<lparr>stdin := []\<rparr>" label def] by simp
  next
    case (Suc m)
    then show ?thesis
      using YesNoPrompt_line [of "[]" "w\<lparr>stdin := LF # replicate m LF\<rparr>" "replicate m LF" label def]
      by (simp add: TrimSpace_Nil)
  qed
  moreover have "StringPrompt label (w\<lparr>stdin := []\<rparr>) = None"
    by (simp add: StringPrompt_eof)
  ultimately show ?thesis by simp
qed

subsection \<open>C2: the answers of YesNoPrompt\<close>

text \<open>
  C2: for every label and default value, on a standard input that starts with
  the line \<open>line\<close>, \<^verbatim>\<open>YesNoPrompt\<close> returns the default value when the line is
  empty (or nothing is left of it after trimming); returns true when the
  trimmed line in lower case is \<^verbatim>\<open>y\<close> or \<^verbatim>\<open>yes\<close>; returns false when it is \<^verbatim>\<open>n\<close> or
  \<^verbatim>\<open>no\<close>; and for any other line writes the hint and carries on as
  \<^verbatim>\<open>YesNoPrompt\<close> does on the rest of the input, where it writes the hint again
  and reads the next line.
\<close>

theorem YesNoPrompt_answers:
  assumes "LF \<notin> set line" and "stdin w = line @ LF # rest"
    and "w' = w\<lparr>stderr := stderr w @ YesNo_hint label def, stdin := rest\<rparr>"
  shows "(line = [] \<or> TrimSpace line = [] \<longrightarrow> YesNoPrompt label def w = (def, w'))
    \<and> (ToLower (TrimSpace line) = ''y'' \<or> ToLower (TrimSpace line) = ''yes''
        \<longrightarrow> YesNoPrompt label def w = (True, w'))
    \<and> (ToLower (TrimSpace line) = ''n'' \<or> ToLower (TrimSpace line) = ''no''
        \<longrightarrow> YesNoPrompt label def w = (False, w'))
    \<and> (TrimSpace line \<noteq> [] \<and> ToLower (TrimSpace line) \<notin> {''y'', ''yes'', ''n'', ''no''}
        \<longrightarrow> YesNoPrompt label def w = YesNoPrompt label def w')"
proof -
  note step = YesNoPrompt_line [OF assms(1,2), of label def, folded assms(3)]
  have e: "ToLower (TrimSpace line) \<noteq> [] \<Longrightarrow> TrimSpace line \<noteq> []"
    by (auto simp: ToLower_def)
  show ?thesis
  proof (intro conjI impI)
    assume "line = [] \<or> TrimSpace line = []"
    with step show "YesNoPrompt label def w = (def, w')"
      by (auto simp: TrimSpace_Nil)
  next
    assume "ToLower (TrimSpace line) = ''y'' \<or> ToLower (TrimSpace line) = ''yes''"
    with step e show "YesNoPrompt label def w = (True, w')"
      by auto
  next
    assume "ToLower (TrimSpace line) = ''n'' \<or> ToLower (TrimSpace line) = ''no''"
    with step e show "YesNoPrompt label def w = (False, w')"
      by auto
  next
    assume "TrimSpace line \<noteq> [] \<and> ToLower (TrimSpace line) \<notin> {''y'', ''yes'', ''n'', ''no''}"
    with step show "YesNoPrompt label def w = YesNoPrompt label def w'"
      by simp
  qed
qed

theorem YesNoPrompt_answers_witness:
  "YesNoPrompt ''Sure?'' True \<lparr>stdin = [LF], tty = True, stdout = [], stderr = []\<rparr> =
     (True, \<lparr>stdin = [], tty = True, stdout = [], stderr = ''Sure? (Y/n) ''\<rparr>)
   \<and> YesNoPrompt ''Sure?'' False \<lparr>stdin = [LF], tty = True, stdout = [], stderr = []\<rparr> =
     (False, \<lparr>stdin = [], tty = True, stdout = [], stderr = ''Sure? (y/N) ''\<rparr>)
   \<and> YesNoPrompt ''Sure?'' False
       \<lparr>stdin = ''YES'' @ [LF], tty = True, stdout = [], stderr = []\<rparr> =
     (True, \<lparr>stdin = [], tty = True, stdout = [], stderr = ''Sure? (y/N) ''\<rparr>)
   \<and> YesNoPrompt ''Sure?'' True
       \<lparr>stdin = ''No'' @ [LF], tty = True, stdout = [], stderr = []\<rparr> =
     (False, \<lparr>stdin = [], tty = True, stdout = [], stderr = ''Sure? (Y/n) ''\<rparr>)
   \<and> YesNoPrompt ''Sure?'' True
       \<lparr>stdin = ''maybe'' @ [LF] @ ''n'' @ [LF], tty = True, stdout = [], stderr = []\<rparr> =
     (False, \<lparr>stdin = [], tty = True, stdout = [], stderr = ''Sure? (Y/n) Sure? (Y/n) ''\<rparr>)"
proof -
  let ?w = "\<lambda>s. \<lparr>stdin = s, tty = True, stdout = [], stderr = []\<rparr>"
  let ?w1 = "\<lparr>stdin = ''n'' @ [LF], tty = True, stdout = [], stderr = ''Sure? (Y/n) ''\<rparr>"
  have yes: "ToLower (TrimSpace ''YES'') = ''yes''" by code_simp
  have no: "ToLower (TrimSpace ''No'') = ''no''" by code_simp
  have n: "ToLower (TrimSpace ''n'') = ''n''" by code_simp
  have maybe: "TrimSpace ''maybe'' \<noteq> [] \<and>
      ToLower (TrimSpace ''maybe'') \<notin> {''y'', ''yes'', ''n'', ''no''}"
    by code_simp
  have 1: "YesNoPrompt ''Sure?'' True (?w [LF]) =
      (True, \<lparr>stdin = [], tty = True, stdout = [], stderr = ''Sure? (Y/n) ''\<rparr>)"
    using YesNoPrompt_answers [of "[]" "?w [LF]" "[]" _ "''Sure?''" True, OF _ _ refl]
    by simp
  have 2: "YesNoPrompt ''Sure?'' False (?w [LF]) =
      (False, \<lparr>stdin = [], tty = True, stdout = [], stderr = ''Sure? (y/N) ''\<rparr>)"
    using YesNoPrompt_answers [of "[]" "?w [LF]" "[]" _ "''Sure?''" False, OF _ _ refl]
    by simp
  have 3: "YesNoPrompt ''Sure?'' False (?w (''YES'' @ [LF])) =
      (True, \<lparr>stdin = [], tty = True, stdout = [], stderr = ''Sure? (y/N) ''\<rparr>)"
    using YesNoPrompt_answers [of "''YES''" "?w (''YES'' @ [LF])" "[]" _ "''Sure?''" False,
        OF _ _ refl] yes
    by simp
  have 4: "YesNoPrompt ''Sure?'' True (?w (''No'' @ [LF])) =
      (False, \<lparr>stdin = [], tty = True, stdout = [], stderr = ''Sure? (Y/n) ''\<rparr>)"
    using YesNoPrompt_answers [of "''No''" "?w (''No'' @ [LF])" "[]" _ "''Sure?''" True,
        OF _ _ refl] no
    by simp
  have "YesNoPrompt ''Sure?'' True (?w (''maybe'' @ [LF] @ ''n'' @ [LF])) =
      YesNoPrompt ''Sure?'' True ?w1"
    using YesNoPrompt_answers [of "''maybe''" "?w (''maybe'' @ [LF] @ ''n'' @ [LF])"
        "''n'' @ [LF]" _ "''Sure?''" True, OF _ _ refl] maybe
    by simp
  also have "\<dots> =
      (False, \<lparr>stdin = [], tty = True, stdout = [], stderr = ''Sure? (Y/n) Sure? (Y/n) ''\<rparr>)"
    using YesNoPrompt_answers [of "''n''" ?w1 "[]" _ "''Sure?''" True, OF _ _ refl] n
    by simp
  finally show ?thesis using 1 2 3 4 by simp
qed

subsection \<open>C3: StringPrompt on an empty line\<close>

text \<open>
  C3 says that \<^verbatim>\<open>StringPrompt\<close>, given an empty line and then the line \<^verbatim>\<open>abc\<close>, goes
  round again and returns \<^verbatim>\<open>abc\<close>. The loop tests the string as read, line
  feed included, so it leaves on the empty line and the function returns the
  empty string, with \<^verbatim>\<open>abc\<close> still unread.
\<close>

theorem StringPrompt_empty_line_returns_empty:
  "StringPrompt ''Name?''
     \<lparr>stdin = [LF] @ ''abc'' @ [LF], tty = True, stdout = [], stderr = []\<rparr> =
   Some ([], \<lparr>stdin = ''abc'' @ [LF], tty = True, stdout = [], stderr = ''Name? ''\<rparr>)"
  using StringPrompt_line [of "[]"
      "\<lparr>stdin = [LF] @ ''abc'' @ [LF], tty = True, stdout = [], stderr = []\<rparr>"
      "''abc'' @ [LF]" "''Name?''"]
  by (simp add: TrimSpace_Nil)

subsection \<open>C4: standard input that is no terminal\<close>

text \<open>
  C4, as stated: when \<^verbatim>\<open>term.IsTerminal\<close> reports that standard input is no
  terminal, \<^verbatim>\<open>PasswordPrompt\<close> and \<^verbatim>\<open>Checkboxes\<close> fail with NotATerminal and read no
  byte. The code has no such failure and neither function asks whether the
  input is a terminal: \<^verbatim>\<open>PasswordPrompt\<close> does not return; \<^verbatim>\<open>Checkboxes\<close> returns
  the empty list when the collaborator fails for want of a terminal, and with
  a collaborator that reads a line it returns the selection, the line read.
\<close>

theorem non_interactive_counterexample:
  "\<not> IsTerminal \<lparr>stdin = ''secret'' @ [LF], tty = False, stdout = [], stderr = []\<rparr>
   \<and> PasswordPrompt ''Password:''
     \<lparr>stdin = ''secret'' @ [LF], tty = False, stdout = [], stderr = []\<rparr> = None
   \<and> Checkboxes no_terminal ''Pick'' [''A'', ''B'']
     \<lparr>stdin = ''secret'' @ [LF], tty = False, stdout = [], stderr = []\<rparr> =
     (Some [], \<lparr>stdin = ''secret'' @ [LF], tty = False, stdout = [], stderr = []\<rparr>)
   \<and> \<not> IsTerminal \<lparr>stdin = ''B'' @ [LF], tty = False, stdout = [], stderr = []\<rparr>
   \<and> Checkboxes select_typed ''Pick'' [''A'', ''B'']
     \<lparr>stdin = ''B'' @ [LF], tty = False, stdout = [], stderr = []\<rparr> =
     (Some [''B''], \<lparr>stdin = [], tty = False, stdout = [], stderr = []\<rparr>)"
proof (intro conjI)
  show "\<not> IsTerminal \<lparr>stdin = ''secret'' @ [LF], tty = False, stdout = [], stderr = []\<rparr>"
    by (simp add: IsTerminal_def)
next
  show "PasswordPrompt ''Password:''
     \<lparr>stdin = ''secret'' @ [LF], tty = False, stdout = [], stderr = []\<rparr> = None"
    by (rule PasswordPrompt_not_tty) simp
next
  show "Checkboxes no_terminal ''Pick'' [''A'', ''B'']
     \<lparr>stdin = ''secret'' @ [LF], tty = False, stdout = [], stderr = []\<rparr> =
     (Some [], \<lparr>stdin = ''secret'' @ [LF], tty = False, stdout = [], stderr = []\<rparr>)"
    by (simp add: Checkboxes_def no_terminal_def)
next
  show "\<not> IsTerminal \<lparr>stdin = ''B'' @ [LF], tty = False, stdout = [], stderr = []\<rparr>"
    by (simp add: IsTerminal_def)
next
  have "TrimSpace (''B'' @ [LF]) = ''B''" by code_simp
  then show "Checkboxes select_typed ''Pick'' [''A'', ''B'']
     \<lparr>stdin = ''B'' @ [LF], tty = False, stdout = [], stderr = []\<rparr> =
     (Some [''B''], \<lparr>stdin = [], tty = False, stdout = [], stderr = []\<rparr>)"
    by (simp add: Checkboxes_def select_typed_def Reader_ReadString_def)
qed

text \<open>
  C4, amended: neither prompt has a NotATerminal failure. When standard input
  is no terminal, the hidden read of \<^verbatim>\<open>PasswordPrompt\<close> fails at once and leaves
  the input as it is, and \<^verbatim>\<open>PasswordPrompt\<close> never returns; \<^verbatim>\<open>Checkboxes\<close> calls the
  collaborator all the same and returns what it selects, the empty list when
  it fails, in the environment the collaborator leaves.
\<close>

theorem non_interactive_no_failure:
  assumes "\<not> IsTerminal w"
  shows "ReadPassword w = Some (([], Some ENOTTY), w)
    \<and> PasswordPrompt label w = None
    \<and> Checkboxes AskOne label opts w =
        (case AskOne \<lparr>Message = label, Options = opts\<rparr> w of
           (Failed e, w') \<Rightarrow> (Some [], w')
         | (Answered chosen, w') \<Rightarrow> (Some chosen, w'))"
  using assms
  by (simp add: ReadPassword_def IsTerminal_def PasswordPrompt_not_tty Checkboxes_outcome)

theorem non_interactive_no_failure_witness:
  "\<not> IsTerminal \<lparr>stdin = ''secret'' @ [LF], tty = False, stdout = [], stderr = []\<rparr>
   \<and> ReadPassword \<lparr>stdin = ''secret'' @ [LF], tty = False, stdout = [], stderr = []\<rparr> =
     Some (([], Some ENOTTY),
       \<lparr>stdin = ''secret'' @ [LF], tty = False, stdout = [], stderr = []\<rparr>)
   \<and> PasswordPrompt ''Password:''
     \<lparr>stdin = ''secret'' @ [LF], tty = False, stdout = [], stderr = []\<rparr> = None
   \<and> Checkboxes no_terminal ''Password:'' [''A'', ''B'']
     \<lparr>stdin = ''secret'' @ [LF], tty = False, stdout = [], stderr = []\<rparr> =
     (Some [], \<lparr>stdin = ''secret'' @ [LF], tty = False, stdout = [], stderr = []\<rparr>)"
  using non_interactive_no_failure [where
      w = "\<lparr>stdin = ''secret'' @ [LF], tty = False, stdout = [], stderr = []\<rparr>"
      and label = "''Password:''" and AskOne = no_terminal and opts = "[''A'', ''B'']"]
  by (simp add: no_terminal_def IsTerminal_def)

subsection \<open>C5: options with a duplicate\<close>

text \<open>
  C5, as stated: on options with a duplicate entry \<^verbatim>\<open>Checkboxes\<close> fails with
  InvalidOptions before it calls the collaborator. The code checks nothing: on
  \<^verbatim>\<open>["A","B","A"]\<close> the result is the selection of the collaborator, a different
  one for a different collaborator.
\<close>

theorem Checkboxes_duplicates_counterexample:
  "Checkboxes select_all ''Pick'' [''A'', ''B'', ''A'']
     \<lparr>stdin = [], tty = True, stdout = [], stderr = []\<rparr> =
     (Some [''A'', ''B'', ''A''], \<lparr>stdin = [], tty = True, stdout = [], stderr = []\<rparr>)
   \<and> Checkboxes select_first ''Pick'' [''A'', ''B'', ''A'']
     \<lparr>stdin = [], tty = True, stdout = [], stderr = []\<rparr> =
     (Some [''A''], \<lparr>stdin = [], tty = True, stdout = [], stderr = []\<rparr>)"
  by (simp add: Checkboxes_def select_all_def select_first_def)

text \<open>
  C5, amended: for every list of options, with a duplicate entry or without,
  \<^verbatim>\<open>Checkboxes\<close> hands the label and the options as they are to the collaborator
  and returns the options the collaborator answers with.
\<close>

theorem Checkboxes_no_validation:
  assumes "AskOne \<lparr>Message = label, Options = opts\<rparr> w = (Answered chosen, w')"
  shows "Checkboxes AskOne label opts w = (Some chosen, w')"
  using assms by (simp add: Checkboxes_def)

theorem Checkboxes_no_validation_witness:
  "select_typed \<lparr>Message = ''Pick'', Options = [''A'', ''B'', ''A'']\<rparr>
     \<lparr>stdin = ''A'' @ [LF], tty = True, stdout = [], stderr = []\<rparr> =
     (Answered [''A'', ''A''], \<lparr>stdin = [], tty = True, stdout = [], stderr = []\<rparr>)
   \<and> Checkboxes select_typed ''Pick'' [''A'', ''B'', ''A'']
     \<lparr>stdin = ''A'' @ [LF], tty = True, stdout = [], stderr = []\<rparr> =
     (Some [''A'', ''A''], \<lparr>stdin = [], tty = True, stdout = [], stderr = []\<rparr>)"
proof -
  have "TrimSpace (''A'' @ [LF]) = ''A''" by code_simp
  then have s: "select_typed \<lparr>Message = ''Pick'', Options = [''A'', ''B'', ''A'']\<rparr>
     \<lparr>stdin = ''A'' @ [LF], tty = True, stdout = [], stderr = []\<rparr> =
     (Answered [''A'', ''A''], \<lparr>stdin = [], tty = True, stdout = [], stderr = []\<rparr>)"
    by (simp add: select_typed_def Reader_ReadString_def)
  from s Checkboxes_no_validation [where AskOne = select_typed and label = "''Pick''"
      and opts = "[''A'', ''B'', ''A'']", OF s]
  show ?thesis by simp
qed

subsection \<open>C6: StringPrompt trims both ends\<close>

text \<open>
  C6: for every label, \<^verbatim>\<open>StringPrompt\<close> on the line \<^verbatim>\<open>abc\<close> returns \<^verbatim>\<open>abc\<close>, and on the
  line \<^verbatim>\<open>hello\<close> with two spaces on either side returns \<^verbatim>\<open>hello\<close>. In general,
  the white space before and after a text that neither starts nor ends with
  white space is removed, and the text comes back as it is, the white space
  inside it included.
\<close>

theorem StringPrompt_trims:
  "StringPrompt label (w\<lparr>stdin := ''abc'' @ LF # rest\<rparr>) =
      Some (''abc'', w\<lparr>stderr := stderr w @ label @ '' '', stdin := rest\<rparr>)
   \<and> StringPrompt label (w\<lparr>stdin := ''  hello  '' @ LF # rest\<rparr>) =
      Some (''hello'', w\<lparr>stderr := stderr w @ label @ '' '', stdin := rest\<rparr>)
   \<and> (set lead \<subseteq> set spaceRunes \<and> set trail \<subseteq> set spaceRunes
        \<and> core \<noteq> [] \<and> \<not> startsWithSpace core \<and> \<not> endsWithSpace core
        \<and> LF \<notin> set (concat lead @ core @ concat trail)
      \<longrightarrow> StringPrompt label (w\<lparr>stdin := concat lead @ core @ concat trail @ LF # rest\<rparr>) =
        Some (core, w\<lparr>stderr := stderr w @ label @ '' '', stdin := rest\<rparr>))"
proof (intro conjI impI)
  have "TrimSpace ''abc'' = ''abc''" by code_simp
  then show "StringPrompt label (w\<lparr>stdin := ''abc'' @ LF # rest\<rparr>) =
      Some (''abc'', w\<lparr>stderr := stderr w @ label @ '' '', stdin := rest\<rparr>)"
    using StringPrompt_line [of "''abc''" "w\<lparr>stdin := ''abc'' @ LF # rest\<rparr>" rest label]
    by simp
next
  have "TrimSpace ''  hello  '' = ''hello''" by code_simp
  then show "StringPrompt label (w\<lparr>stdin := ''  hello  '' @ LF # rest\<rparr>) =
      Some (''hello'', w\<lparr>stderr := stderr w @ label @ '' '', stdin := rest\<rparr>)"
    using StringPrompt_line [of "''  hello  ''" "w\<lparr>stdin := ''  hello  '' @ LF # rest\<rparr>"
        rest label]
    by simp
next
  assume a: "set lead \<subseteq> set spaceRunes \<and> set trail \<subseteq> set spaceRunes
        \<and> core \<noteq> [] \<and> \<not> startsWithSpace core \<and> \<not> endsWithSpace core
        \<and> LF \<notin> set (concat lead @ core @ concat trail)"
  then have t: "TrimSpace (concat lead @ core @ concat trail) = core"
    by (simp add: TrimSpace_around)
  from a have "LF \<notin> set (concat lead @ core @ concat trail)" by simp
  from StringPrompt_line [OF this,
      of "w\<lparr>stdin := concat lead @ core @ concat trail @ LF # rest\<rparr>" rest label] t
  show "StringPrompt label (w\<lparr>stdin := concat lead @ core @ concat trail @ LF # rest\<rparr>) =
        Some (core, w\<lparr>stderr := stderr w @ label @ '' '', stdin := rest\<rparr>)"
    by simp
qed

theorem StringPrompt_trims_witness:
  "StringPrompt ''Name?''
     \<lparr>stdin = [CHR 0x09, CHR 0x20] @ ''Ada  Lovelace'' @ [CHR 0xC2, CHR 0xA0, CR, LF] @ ''next'',
      tty = False, stdout = [], stderr = []\<rparr> =
   Some (''Ada  Lovelace'',
     \<lparr>stdin = ''next'', tty = False, stdout = [], stderr = ''Name? ''\<rparr>)"
proof -
  let ?lead = "[[CHR 0x09], [CHR 0x20]]" and ?trail = "[[CHR 0xC2, CHR 0xA0], [CR]]"
  let ?w = "\<lparr>stdin = [], tty = False, stdout = [], stderr = []\<rparr>"
  have "\<not> startsWithSpace ''Ada  Lovelace''" "\<not> endsWithSpace ''Ada  Lovelace''"
    by code_simp+
  moreover have "set ?lead \<subseteq> set spaceRunes \<and> set ?trail \<subseteq> set spaceRunes
      \<and> LF \<notin> set (concat ?lead @ ''Ada  Lovelace'' @ concat ?trail)"
    by (simp add: spaceRunes_def)
  ultimately show ?thesis
    using StringPrompt_trims [where label = "''Name?''" and w = ?w and lead = ?lead
      and trail = ?trail and core = "''Ada  Lovelace''" and rest = "''next''"]
    by simp
qed

subsection \<open>C7: where the newline of PasswordPrompt goes\<close>

text \<open>
  C7 says that every prompt writes to standard error only, the newline after
  the hidden read of \<^verbatim>\<open>PasswordPrompt\<close> included. \<^verbatim>\<open>StringPrompt\<close> and \<^verbatim>\<open>YesNoPrompt\<close>
  leave standard output as it is (\<open>StringPrompt_stdout\<close>, \<open>YesNoPrompt_stdout\<close>),
  but \<^verbatim>\<open>PasswordPrompt\<close> writes its label to standard error and the newline,
  with \<^verbatim>\<open>fmt.Println()\<close>, to standard output.
\<close>

theorem PasswordPrompt_newline_on_stdout:
  "PasswordPrompt ''Password:''
     \<lparr>stdin = ''secret'' @ [LF], tty = True, stdout = [], stderr = []\<rparr> =
   Some (''secret'', \<lparr>stdin = [], tty = True, stdout = [LF], stderr = ''Password: ''\<rparr>)"
  using PasswordPrompt_line [of
      "\<lparr>stdin = ''secret'' @ [LF], tty = True, stdout = [], stderr = []\<rparr>"
      "''secret''" "[]" "''Password:''"]
  by simp

subsection \<open>C8: PasswordPrompt does not trim\<close>

text \<open>
  C8: on a terminal, for every line that is not empty (and has none of the
  bytes the hidden read takes for itself: backspace, carriage return, line
  feed), \<^verbatim>\<open>PasswordPrompt\<close> returns the line as it was entered, while
  \<^verbatim>\<open>StringPrompt\<close> on the same input returns the line trimmed. A line of spaces
  only comes back unchanged. Whatever the line holds, \<^verbatim>\<open>PasswordPrompt\<close> returns
  what the hidden read returns (\<open>PasswordPrompt_hidden_read\<close>).
\<close>

theorem PasswordPrompt_verbatim:
  assumes "IsTerminal w" and "stdin w = line @ LF # rest" and "line \<noteq> []"
    and "\<forall>c\<in>set line. c \<noteq> BS \<and> c \<noteq> LF \<and> c \<noteq> CR"
  shows "PasswordPrompt label w =
      Some (line, w\<lparr>stderr := stderr w @ label @ '' '', stdin := rest,
        stdout := stdout w @ [LF]\<rparr>)
    \<and> StringPrompt label w =
      Some (TrimSpace line, w\<lparr>stderr := stderr w @ label @ '' '', stdin := rest\<rparr>)"
proof
  show "PasswordPrompt label w =
      Some (line, w\<lparr>stderr := stderr w @ label @ '' '', stdin := rest,
        stdout := stdout w @ [LF]\<rparr>)"
    using assms by (intro PasswordPrompt_line) (simp_all add: IsTerminal_def)
next
  from assms(4) have "LF \<notin> set line" by auto
  then show "StringPrompt label w =
      Some (TrimSpace line, w\<lparr>stderr := stderr w @ label @ '' '', stdin := rest\<rparr>)"
    using assms(2) by (rule StringPrompt_line)
qed

theorem PasswordPrompt_verbatim_witness:
  "PasswordPrompt ''Password:''
     \<lparr>stdin = ''   '' @ [LF], tty = True, stdout = [], stderr = []\<rparr> =
     Some (''   '', \<lparr>stdin = [], tty = True, stdout = [LF], stderr = ''Password: ''\<rparr>)
   \<and> StringPrompt ''Password:''
     \<lparr>stdin = ''   '' @ [LF], tty = True, stdout = [], stderr = []\<rparr> =
     Some ([], \<lparr>stdin = [], tty = True, stdout = [], stderr = ''Password: ''\<rparr>)"
proof -
  have "TrimSpace ''   '' = []" by code_simp
  then show ?thesis
    using PasswordPrompt_verbatim [of
        "\<lparr>stdin = ''   '' @ [LF], tty = True, stdout = [], stderr = []\<rparr>"
        "''   ''" "[]" "''Password:''"]
    by (simp add: IsTerminal_def)
qed

subsection \<open>C9: YesNoPrompt strips white space\<close>

text \<open>
  C9: for every line, \<^verbatim>\<open>YesNoPrompt\<close> does on the line with white space before
  and after it what it does on the line alone, so \<^verbatim>\<open>YES\<close> between spaces is
  true; and a line of white space only is the empty line to it: the default
  value is returned. The white space is any sequence of the encodings in
  \<^const>\<open>spaceRunes\<close> that holds no line feed.
\<close>

theorem YesNoPrompt_strips_whitespace:
  assumes "set lead \<subseteq> set spaceRunes" and "set trail \<subseteq> set spaceRunes"
    and "LF \<notin> set (concat lead @ line @ concat trail)"
    and "stdin w = concat lead @ line @ concat trail @ LF # rest"
  shows "YesNoPrompt label def w = YesNoPrompt label def (w\<lparr>stdin := line @ LF # rest\<rparr>)
    \<and> (line = [] \<longrightarrow> YesNoPrompt label def w =
          (def, w\<lparr>stderr := stderr w @ YesNo_hint label def, stdin := rest\<rparr>))"
proof -
  have t: "TrimSpace (concat lead @ line @ concat trail) = TrimSpace line"
    using assms(1,2) TrimSpace_append [of trail line] by (simp add: TrimSpace_prepend)
  from assms(3) have l: "LF \<notin> set line" by simp
  have a: "YesNoPrompt label def w =
    (if TrimSpace line = []
     then (def, w\<lparr>stderr := stderr w @ YesNo_hint label def, stdin := rest\<rparr>)
     else if ToLower (TrimSpace line) = ''y'' \<or> ToLower (TrimSpace line) = ''yes''
     then (True, w\<lparr>stderr := stderr w @ YesNo_hint label def, stdin := rest\<rparr>)
     else if ToLower (TrimSpace line) = ''n'' \<or> ToLower (TrimSpace line) = ''no''
     then (False, w\<lparr>stderr := stderr w @ YesNo_hint label def, stdin := rest\<rparr>)
     else YesNoPrompt label def
       (w\<lparr>stderr := stderr w @ YesNo_hint label def, stdin := rest\<rparr>))"
    using YesNoPrompt_line [OF assms(3), of w rest label def] assms(4) t by simp
  have b: "YesNoPrompt label def (w\<lparr>stdin := line @ LF # rest\<rparr>) =
    (if TrimSpace line = []
     then (def, w\<lparr>stderr := stderr w @ YesNo_hint label def, stdin := rest\<rparr>)
     else if ToLower (TrimSpace line) = ''y'' \<or> ToLower (TrimSpace line) = ''yes''
     then (True, w\<lparr>stderr := stderr w @ YesNo_hint label def, stdin := rest\<rparr>)
     else if ToLower (TrimSpace line) = ''n'' \<or> ToLower (TrimSpace line) = ''no''
     then (False, w\<lparr>stderr := stderr w @ YesNo_hint label def, stdin := rest\<rparr>)
     else YesNoPrompt label def
       (w\<lparr>stderr := stderr w @ YesNo_hint label def, stdin := rest\<rparr>))"
    using YesNoPrompt_line [OF l, of "w\<lparr>stdin := line @ LF # rest\<rparr>" rest label def] by simp
  from a b have "YesNoPrompt label def w = YesNoPrompt label def (w\<lparr>stdin := line @ LF # rest\<rparr>)"
    by simp
  moreover from a have "line = [] \<longrightarrow> YesNoPrompt label def w =
          (def, w\<lparr>stderr := stderr w @ YesNo_hint label def, stdin := rest\<rparr>)"
    by (simp add: TrimSpace_Nil)
  ultimately show ?thesis by simp
qed

theorem YesNoPrompt_strips_whitespace_witness:
  "YesNoPrompt ''Sure?'' False
     \<lparr>stdin = ''  YES  '' @ [LF], tty = True, stdout = [], stderr = []\<rparr> =
     (True, \<lparr>stdin = [], tty = True, stdout = [], stderr = ''Sure? (y/N) ''\<rparr>)
   \<and> YesNoPrompt ''Sure?'' True
     \<lparr>stdin = [CHR 0x20, CHR 0x09, CHR 0xC2, CHR 0xA0, CR, LF] @ ''no'' @ [LF],
      tty = True, stdout = [], stderr = []\<rparr> =
     (True, \<lparr>stdin = ''no'' @ [LF], tty = True, stdout = [], stderr = ''Sure? (Y/n) ''\<rparr>)"
proof -
  let ?sp = "[[CHR 0x20], [CHR 0x20]]"
  let ?w = "\<lparr>stdin = ''  YES  '' @ [LF], tty = True, stdout = [], stderr = []\<rparr>"
  let ?v = "\<lparr>stdin = [CHR 0x20, CHR 0x09, CHR 0xC2, CHR 0xA0, CR, LF] @ ''no'' @ [LF],
      tty = True, stdout = [], stderr = []\<rparr>"
  have s: "set ?sp \<subseteq> set spaceRunes"
    "set [[CHR 0x20], [CHR 0x09], [CHR 0xC2, CHR 0xA0], [CR]] \<subseteq> set spaceRunes"
    "set ([] :: string list) \<subseteq> set spaceRunes"
    by (simp_all add: spaceRunes_def)
  have yes: "TrimSpace ''YES'' = ''YES''" "ToLower ''YES'' = ''yes''" by code_simp+
  have "YesNoPrompt ''Sure?'' False ?w = YesNoPrompt ''Sure?'' False (?w\<lparr>stdin := ''YES'' @ [LF]\<rparr>)"
    using YesNoPrompt_strips_whitespace [OF s(1) s(1), of "''YES''" ?w "[]" "''Sure?''" False,
        THEN conjunct1]
    by simp
  also have "\<dots> = (True, \<lparr>stdin = [], tty = True, stdout = [], stderr = ''Sure? (y/N) ''\<rparr>)"
    using YesNoPrompt_line [of "''YES''" "?w\<lparr>stdin := ''YES'' @ [LF]\<rparr>" "[]" "''Sure?''" False] yes
    by simp
  finally have 1: "YesNoPrompt ''Sure?'' False ?w =
      (True, \<lparr>stdin = [], tty = True, stdout = [], stderr = ''Sure? (y/N) ''\<rparr>)" .
  have 2: "YesNoPrompt ''Sure?'' True ?v =
      (True, \<lparr>stdin = ''no'' @ [LF], tty = True, stdout = [], stderr = ''Sure? (Y/n) ''\<rparr>)"
    using YesNoPrompt_strips_whitespace [OF s(2) s(3), of "[]" ?v "''no'' @ [LF]" "''Sure?''" True,
        THEN conjunct2]
    by simp
  from 1 2 show ?thesis by simp
qed

subsection \<open>C10: Checkboxes returns a list\<close>

text \<open>
  C10: \<^verbatim>\<open>Checkboxes\<close> never returns \<^verbatim>\<open>nil\<close>; when the collaborator fails, the error is
  dropped and the result is the empty list, and so it is when the
  collaborator selects nothing.
\<close>

theorem Checkboxes_never_nil:
  "fst (Checkboxes AskOne label opts w) \<noteq> None
   \<and> (AskOne \<lparr>Message = label, Options = opts\<rparr> w = (Failed e, w')
        \<longrightarrow> Checkboxes AskOne label opts w = (Some [], w'))
   \<and> (AskOne \<lparr>Message = label, Options = opts\<rparr> w = (Answered [], w')
        \<longrightarrow> Checkboxes AskOne label opts w = (Some [], w'))"
  by (simp add: Checkboxes_outcome split: prod.splits outcome.splits)

theorem Checkboxes_never_nil_witness:
  "fst (Checkboxes interrupted ''Pick'' [''A'', ''B'']
      \<lparr>stdin = [], tty = True, stdout = [], stderr = []\<rparr>) \<noteq> None
   \<and> Checkboxes interrupted ''Pick'' [''A'', ''B'']
      \<lparr>stdin = [], tty = True, stdout = [], stderr = []\<rparr> =
     (Some [], \<lparr>stdin = [], tty = True, stdout = [], stderr = []\<rparr>)
   \<and> Checkboxes select_none ''Pick'' [''A'', ''B'']
      \<lparr>stdin = [], tty = True, stdout = [], stderr = []\<rparr> =
     (Some [], \<lparr>stdin = [], tty = True, stdout = [], stderr = []\<rparr>)"
  using Checkboxes_never_nil [where AskOne = interrupted and label = "''Pick''"
      and opts = "[''A'', ''B'']"
      and w = "\<lparr>stdin = [], tty = True, stdout = [], stderr = []\<rparr>"
      and e = "ErrorString ''interrupt''"
      and w' = "\<lparr>stdin = [], tty = True, stdout = [], stderr = []\<rparr>"]
    Checkboxes_never_nil [where AskOne = select_none and label = "''Pick''"
      and opts = "[''A'', ''B'']"
      and w = "\<lparr>stdin = [], tty = True, stdout = [], stderr = []\<rparr>"
      and w' = "\<lparr>stdin = [], tty = True, stdout = [], stderr = []\<rparr>"]
  by (simp add: interrupted_def select_none_def)

end
